theory Spec2Isabelle
  imports Main "HOL-Library.Sublist" "HOL-Library.Code_Target_Numeral"
begin

section \<open>The PromQL parse client\<close>

text \<open>
  A shallow embedding of \<^verbatim>\<open>src/services/parseClient.ts\<close>: the AST builder over the
  concrete syntax tree of the Lezer PromQL grammar, the label-matcher and grouping
  extractors, the duration parser and the explanation generator.

  Conventions of the embedding.
  \<^item> A JavaScript string is a \<^typ>\<open>string\<close>; positions index its elements. The
    queries of the language are ASCII text.
  \<^item> The numbers of the source count milliseconds. They are non-negative integers,
    modelled as \<^typ>\<open>nat\<close>; the source's doubles agree with them below \<open>2 ^ 53\<close>, and
    nothing is said here about larger values.
  \<^item> An optional field of an interface is an \<^typ>\<open>'a option\<close>; \<^verbatim>\<open>undefined\<close> is
    \<^term>\<open>None\<close>.
  \<^item> A lookup table written as an object literal is an association list of its own
    keys, read with \<^const>\<open>map_of\<close>. The names every JavaScript object inherits
    (\<^verbatim>\<open>constructor\<close>, \<^verbatim>\<open>toString\<close> and the like) are not keys of the model; no keyword of
    the grammar is such a name.
  \<^item> The grammar and its parser are an external package: the tree it returns is an
    input of the builder, and the parser is a parameter of \<^verbatim>\<open>parseQuery\<close>.
\<close>

subsection \<open>Strings\<close>

text \<open>\<^verbatim>\<open>s.slice(from, to)\<close> for non-negative positions: both ends are clamped to the
  length, and an empty range gives the empty string.\<close>

definition slice :: "string \<Rightarrow> nat \<Rightarrow> nat \<Rightarrow> string" where
  "slice s from_pos to_pos =
     (let len = length s; f = min from_pos len; t = min to_pos len
      in if f < t then take (t - f) (drop f s) else [])"

text \<open>\<^verbatim>\<open>s.slice(1, -1)\<close>: the negative end counts from the length, not below zero.\<close>

definition slice_1_minus1 :: "string \<Rightarrow> string" where
  "slice_1_minus1 s = slice s 1 (length s - 1)"

text \<open>\<^verbatim>\<open>xs.join(sep)\<close>.\<close>

fun join :: "string \<Rightarrow> string list \<Rightarrow> string" where
  "join sep [] = []"
| "join sep [x] = x"
| "join sep (x # y # ys) = x @ sep @ join sep (y # ys)"

text \<open>\<^verbatim>\<open>s.includes(sub)\<close>: \<open>sub\<close> occurs in \<open>s\<close> as a contiguous block.\<close>

fun includes_str :: "string \<Rightarrow> string \<Rightarrow> bool" where
  "includes_str [] sub = (sub = [])"
| "includes_str (c # cs) sub = (prefix sub (c # cs) \<or> includes_str cs sub)"

text \<open>\<^verbatim>\<open>s.toLowerCase()\<close>, on ASCII text: the letters \<open>A\<close> to \<open>Z\<close> change.\<close>

definition lowerChar :: "char \<Rightarrow> char" where
  "lowerChar c =
     (let k = (of_char c :: nat) in if 65 \<le> k \<and> k \<le> 90 then char_of (k + 32) else c)"

definition toLowerCase :: "string \<Rightarrow> string" where
  "toLowerCase s = map lowerChar s"

text \<open>A template literal prints an absent string as \<^verbatim>\<open>undefined\<close>.\<close>

definition interpolate :: "string option \<Rightarrow> string" where
  "interpolate v = (case v of None \<Rightarrow> ''undefined'' | Some s \<Rightarrow> s)"

text \<open>\<^verbatim>\<open>v || d\<close> on an optional string: absent and empty are both falsy.\<close>

definition orElse :: "string option \<Rightarrow> string \<Rightarrow> string" where
  "orElse v d = (case v of None \<Rightarrow> d | Some s \<Rightarrow> if s = [] then d else s)"

text \<open>The decimal numeral of a non-negative integer, as a template literal prints it.\<close>

definition digitChar :: "nat \<Rightarrow> char" where
  "digitChar d = ''0123456789'' ! d"

function showNat :: "nat \<Rightarrow> string" where
  "showNat n = (if n < 10 then [digitChar n] else showNat (n div 10) @ [digitChar (n mod 10)])"
  by pat_completeness auto
termination
  by (relation "measure id") auto

declare showNat.simps [simp del]

subsection \<open>The duration parser\<close>

text \<open>The regular expression \<^verbatim>\<open>/(\d+)(ms|s|m|h|d|w|y)/g\<close>, run by \<^verbatim>\<open>exec\<close> from
  \<^verbatim>\<open>lastIndex\<close>. \<^verbatim>\<open>\d\<close> is a digit \<open>0\<close> to \<open>9\<close>.\<close>

definition isDigit :: "char \<Rightarrow> bool" where
  "isDigit c = (c \<in> set ''0123456789'')"

text \<open>The second group: the alternatives are tried in the order written, at position \<open>q\<close>.\<close>

definition unitAlternatives :: "string list" where
  "unitAlternatives = [''ms'', ''s'', ''m'', ''h'', ''d'', ''w'', ''y'']"

definition matchUnit :: "string \<Rightarrow> nat \<Rightarrow> string option" where
  "matchUnit s q = find (\<lambda>u. take (length u) (drop q s) = u) unitAlternatives"

text \<open>The first group is greedy: it takes every digit from \<open>p\<close>, and gives digits back one
  at a time while the second group does not match behind it. \<open>backtrack s p j\<close> tries the
  first group with \<open>j\<close> digits, then \<open>j - 1\<close>, down to one; a match is reported as the two
  groups and the position behind the match.\<close>

fun backtrack :: "string \<Rightarrow> nat \<Rightarrow> nat \<Rightarrow> (string \<times> string \<times> nat) option" where
  "backtrack s p 0 = None"
| "backtrack s p (Suc j) =
     (case matchUnit s (p + Suc j) of
        Some u \<Rightarrow> Some (take (Suc j) (drop p s), u, p + Suc j + length u)
      | None \<Rightarrow> backtrack s p j)"

definition matchAt :: "string \<Rightarrow> nat \<Rightarrow> (string \<times> string \<times> nat) option" where
  "matchAt s p = backtrack s p (length (takeWhile isDigit (drop p s)))"

text \<open>\<^verbatim>\<open>regex.exec(s)\<close> with \<^verbatim>\<open>lastIndex = p\<close>: the first position from \<open>p\<close> on at which the
  expression matches; \<^verbatim>\<open>null\<close> when there is none.\<close>

function regexExec :: "string \<Rightarrow> nat \<Rightarrow> (string \<times> string \<times> nat) option" where
  "regexExec s p =
     (if length s \<le> p then None
      else case matchAt s p of
             Some m \<Rightarrow> Some m
           | None \<Rightarrow> regexExec s (Suc p))"
  by pat_completeness auto
termination
  by (relation "measure (\<lambda>(s, p). length s - p)") auto

declare regexExec.simps [simp del]

text \<open>\<^verbatim>\<open>parseInt(digits, 10)\<close> on a string of digits.\<close>

definition digitValue :: "char \<Rightarrow> nat" where
  "digitValue c = of_char c - 48"

definition parseInt :: "string \<Rightarrow> nat" where
  "parseInt ds = foldl (\<lambda>n c. 10 * n + digitValue c) 0 ds"

definition units :: "(string \<times> nat) list" where
  "units =
     [(''ms'', 1),
      (''s'', 1000),
      (''m'', 60 * 1000),
      (''h'', 60 * 60 * 1000),
      (''d'', 24 * 60 * 60 * 1000),
      (''w'', 7 * 24 * 60 * 60 * 1000),
      (''y'', 365 * 24 * 60 * 60 * 1000)]"

text \<open>\<^verbatim>\<open>units[unit] || 0\<close>.\<close>

definition unitFactor :: "string \<Rightarrow> nat" where
  "unitFactor u = (case map_of units u of None \<Rightarrow> 0 | Some v \<Rightarrow> v)"

lemma backtrack_end:
  "backtrack s p j = Some (g1, g2, e) \<Longrightarrow> p < e \<and> e \<le> length s"
proof (induction j)
  case 0
  then show ?case by simp
next
  case (Suc j)
  show ?case
  proof (cases "matchUnit s (p + Suc j)")
    case None
    with Suc show ?thesis by simp
  next
    case (Some u)
    then have u: "take (length u) (drop (p + Suc j) s) = u" and mem: "u \<in> set unitAlternatives"
      by (auto simp: matchUnit_def find_Some_iff)
    from mem have "u \<noteq> []" by (auto simp: unitAlternatives_def)
    then have "0 < length u" by simp
    from u have "length (take (length u) (drop (p + Suc j) s)) = length u" by simp
    then have "length u \<le> length s - (p + Suc j)" by simp
    with \<open>0 < length u\<close> have "p + Suc j + length u \<le> length s" by arith
    with Some Suc.prems show ?thesis by auto
  qed
qed

lemma regexExec_end:
  "regexExec s p = Some (g1, g2, e) \<Longrightarrow> p < e \<and> e \<le> length s"
proof (induction s p rule: regexExec.induct)
  case (1 s p)
  show ?case
  proof (cases "length s \<le> p")
    case True
    with "1.prems" show ?thesis by (simp add: regexExec.simps)
  next
    case False
    show ?thesis
    proof (cases "matchAt s p")
      case None
      with False "1.prems" have "regexExec s (Suc p) = Some (g1, g2, e)"
        by (simp add: regexExec.simps [of s p])
      with "1.IH" False None show ?thesis by fastforce
    next
      case (Some m)
      with False "1.prems" have "matchAt s p = Some (g1, g2, e)"
        by (simp add: regexExec.simps [of s p])
      then show ?thesis unfolding matchAt_def by (rule backtrack_end)
    qed
  qed
qed

text \<open>The loop \<^verbatim>\<open>while ((match = regex.exec(durationStr)) !== null)\<close>: the state is
  \<^verbatim>\<open>lastIndex\<close> and the sum \<^verbatim>\<open>total\<close>, here \<open>tot\<close>.\<close>

function durationLoop :: "string \<Rightarrow> nat \<Rightarrow> nat \<Rightarrow> nat" where
  "durationLoop s lastIndex tot =
     (case regexExec s lastIndex of
        None \<Rightarrow> tot
      | Some (g1, g2, e) \<Rightarrow> durationLoop s e (tot + parseInt g1 * unitFactor g2))"
  by pat_completeness auto
termination
  by (relation "measure (\<lambda>(s, lastIndex, tot). length s - lastIndex)")
     (auto dest!: regexExec_end)

declare durationLoop.simps [simp del]

text \<open>\<^verbatim>\<open>return total || 300000\<close>.\<close>

definition parseDuration :: "string \<Rightarrow> nat" where
  "parseDuration durationStr =
     (let tot = durationLoop durationStr 0 0 in if tot = 0 then 300000 else tot)"

subsection \<open>The concrete syntax tree\<close>

text \<open>A \<^verbatim>\<open>SyntaxNode\<close> of the Lezer tree, as far as the client reads it: the name of the
  node's type, the groups the grammar puts that type in, whether it is an error type, the
  range of the source text the node covers, and the child nodes in source order.\<close>

datatype SyntaxNode =
  SyntaxNode (type_name: string) (type_groups: "string list") (isError: bool)
    (pos_from: nat) (pos_to: nat) (kids: "SyntaxNode list")

text \<open>\<^verbatim>\<open>node.type.is(name)\<close>: the type has that name or belongs to a group of that name.\<close>

definition typeIs :: "SyntaxNode \<Rightarrow> string \<Rightarrow> bool" where
  "typeIs node nm = (type_name node = nm \<or> nm \<in> set (type_groups node))"

text \<open>\<^verbatim>\<open>node.firstChild\<close>, and \<^verbatim>\<open>node.getChild(name)\<close>, the first child whose type is
  \<open>name\<close>; \<^verbatim>\<open>null\<close> is \<^term>\<open>None\<close>.\<close>

definition firstChild :: "SyntaxNode \<Rightarrow> SyntaxNode option" where
  "firstChild node = (case kids node of [] \<Rightarrow> None | c # _ \<Rightarrow> Some c)"

definition getChild :: "SyntaxNode \<Rightarrow> string \<Rightarrow> SyntaxNode option" where
  "getChild node nm = find (\<lambda>c. typeIs c nm) (kids node)"

text \<open>\<^verbatim>\<open>a || b\<close> on two nodes that may be \<^verbatim>\<open>null\<close>.\<close>

definition orNode :: "SyntaxNode option \<Rightarrow> SyntaxNode option \<Rightarrow> SyntaxNode option" where
  "orNode a b = (case a of Some x \<Rightarrow> Some x | None \<Rightarrow> b)"

text \<open>\<^verbatim>\<open>query.slice(node.from, node.to)\<close>.\<close>

definition sliceOf :: "string \<Rightarrow> SyntaxNode \<Rightarrow> string" where
  "sliceOf query node = slice query (pos_from node) (pos_to node)"

lemma size_kids: "c \<in> set (kids node) \<Longrightarrow> size c < size node"
proof (cases node)
  case (SyntaxNode nm gs e f t cs)
  have "c \<in> set cs \<Longrightarrow> size c \<le> size_list size cs" for cs :: "SyntaxNode list"
    by (induction cs) auto
  with SyntaxNode show "c \<in> set (kids node) \<Longrightarrow> size c < size node" by fastforce
qed

lemma firstChild_kids: "firstChild node = Some c \<Longrightarrow> c \<in> set (kids node)"
  by (auto simp: firstChild_def split: list.splits)

lemma getChild_kids: "getChild node nm = Some c \<Longrightarrow> c \<in> set (kids node)"
  by (auto simp: getChild_def find_Some_iff)

lemma firstChild_size:
  "firstChild node = Some c \<Longrightarrow> size c < size node"
  "Some c = firstChild node \<Longrightarrow> size c < size node"
  by (auto dest!: firstChild_kids [OF sym] firstChild_kids size_kids)

lemma getChild_size:
  "getChild node nm = Some c \<Longrightarrow> size c < size node"
  "Some c = getChild node nm \<Longrightarrow> size c < size node"
  by (auto dest!: getChild_kids [OF sym] getChild_kids size_kids)

subsection \<open>The abstract syntax tree\<close>

datatype NodeType =
  aggregation | binaryExpr | call | matrixSelector | subquery | numberLiteral
  | parenExpr | stringLiteral | unaryExpr | vectorSelector | error

text \<open>The \<^verbatim>\<open>type\<close> of a \<^verbatim>\<open>LabelMatcher\<close> is one of four operator tokens.\<close>

datatype MatchType = MatchEq | MatchNeq | MatchRegex | MatchNotRegex

fun matchTypeText :: "MatchType \<Rightarrow> string" where
  "matchTypeText MatchEq = ''=''"
| "matchTypeText MatchNeq = ''!=''"
| "matchTypeText MatchRegex = ''=~''"
| "matchTypeText MatchNotRegex = ''!~''"

record LabelMatcher =
  matcher_type :: MatchType
  matcher_name :: string
  matcher_value :: string

text \<open>A \<^verbatim>\<open>ParsedNode\<close>. The fields are, in this order: \<^verbatim>\<open>type\<close>, \<^verbatim>\<open>text\<close>, \<^verbatim>\<open>children\<close>,
  \<^verbatim>\<open>op\<close>, \<^verbatim>\<open>name\<close>, \<^verbatim>\<open>matchers\<close>, \<^verbatim>\<open>range\<close>, \<^verbatim>\<open>offset\<close>, \<^verbatim>\<open>grouping\<close>, \<^verbatim>\<open>without\<close>,
  \<^verbatim>\<open>funcName\<close>, \<^verbatim>\<open>args\<close>, \<^verbatim>\<open>value\<close>; all but the first two are optional.\<close>

datatype ParsedNode =
  ParsedNode
    (node_type: NodeType)
    (node_text: string)
    (children: "ParsedNode list option")
    (op: "string option")
    (name: "string option")
    (matchers: "LabelMatcher list option")
    (range_ms: "nat option")
    (offset: "nat option")
    (grouping: "string list option")
    (without: "bool option")
    (funcName: "string option")
    (args: "ParsedNode list option")
    (node_value: "string option")

text \<open>The object literals that \<^verbatim>\<open>buildAST\<close> returns, one per shape.\<close>

definition aggregationNode ::
  "string \<Rightarrow> string \<Rightarrow> string list \<Rightarrow> bool \<Rightarrow> ParsedNode list \<Rightarrow> ParsedNode" where
  "aggregationNode txt opr grp wo chs =
     ParsedNode aggregation txt (Some chs) (Some opr) None None None None (Some grp) (Some wo)
       None None None"

definition callNode :: "string \<Rightarrow> string \<Rightarrow> ParsedNode list \<Rightarrow> ParsedNode" where
  "callNode txt fname as =
     ParsedNode call txt None None None None None None None None (Some fname) (Some as) None"

definition binaryExprNode :: "string \<Rightarrow> string \<Rightarrow> ParsedNode list \<Rightarrow> ParsedNode" where
  "binaryExprNode txt opr chs =
     ParsedNode binaryExpr txt (Some chs) (Some opr) None None None None None None None None None"

definition vectorSelectorNode :: "string \<Rightarrow> string \<Rightarrow> LabelMatcher list \<Rightarrow> ParsedNode" where
  "vectorSelectorNode txt nm ms =
     ParsedNode vectorSelector txt None None (Some nm) (Some ms) None None None None None None None"

definition matrixSelectorNode ::
  "string \<Rightarrow> string option \<Rightarrow> LabelMatcher list option \<Rightarrow> nat \<Rightarrow> ParsedNode" where
  "matrixSelectorNode txt nm ms r =
     ParsedNode matrixSelector txt None None nm ms (Some r) None None None None None None"

definition bareMatrixSelectorNode :: "string \<Rightarrow> ParsedNode" where
  "bareMatrixSelectorNode txt =
     ParsedNode matrixSelector txt None None None None None None None None None None None"

definition subqueryNode :: "string \<Rightarrow> ParsedNode list \<Rightarrow> ParsedNode" where
  "subqueryNode txt chs =
     ParsedNode subquery txt (Some chs) None None None None None None None None None None"

definition numberLiteralNode :: "string \<Rightarrow> ParsedNode" where
  "numberLiteralNode txt =
     ParsedNode numberLiteral txt None None None None None None None None None None (Some txt)"

definition stringLiteralNode :: "string \<Rightarrow> ParsedNode" where
  "stringLiteralNode txt =
     ParsedNode stringLiteral txt None None None None None None None None None None
       (Some (slice_1_minus1 txt))"

definition parenExprNode :: "string \<Rightarrow> ParsedNode list \<Rightarrow> ParsedNode" where
  "parenExprNode txt chs =
     ParsedNode parenExpr txt (Some chs) None None None None None None None None None None"

definition unaryExprNode :: "string \<Rightarrow> string \<Rightarrow> ParsedNode list \<Rightarrow> ParsedNode" where
  "unaryExprNode txt opr chs =
     ParsedNode unaryExpr txt (Some chs) (Some opr) None None None None None None None None None"

definition errorNode :: "string \<Rightarrow> ParsedNode list option \<Rightarrow> ParsedNode" where
  "errorNode txt chs =
     ParsedNode error txt chs None None None None None None None None None None"

subsection \<open>The extractors\<close>

definition isExpressionNode :: "SyntaxNode \<Rightarrow> bool" where
  "isExpressionNode node =
     (type_name node \<in> set
        [''Expr'', ''AggregateExpr'', ''FunctionCall'', ''BinaryExpr'',
         ''VectorSelector'', ''MatrixSelector'', ''SubqueryExpr'',
         ''NumberLiteral'', ''NumberDurationLiteral'', ''StringLiteral'',
         ''ParenExpr'', ''UnaryExpr'', ''StepInvariantExpr''])"

text \<open>The body of the loop of \<^verbatim>\<open>parseLabelMatchers\<close>, at the child \<open>cur\<close> the cursor is on:
  the list \<^verbatim>\<open>matchers\<close> after the iteration.\<close>

definition labelMatcherStep :: "string \<Rightarrow> LabelMatcher list \<Rightarrow> SyntaxNode \<Rightarrow> LabelMatcher list" where
  "labelMatcherStep query ms cur =
     (let typeName = type_name cur
      in if typeName = ''LabelMatcher'' \<or> typeName = ''UnquotedLabelMatcher''
            \<or> typeName = ''QuotedLabelMatcher''
         then
           (let labelName = getChild cur ''LabelName'';
                matchOp = getChild cur ''MatchOp'';
                stringLiteral = getChild cur ''StringLiteral''
            in case (labelName, stringLiteral) of
                 (Some ln, Some sl) \<Rightarrow>
                   (let nm = sliceOf query ln;
                        matchType =
                          (case matchOp of
                             None \<Rightarrow> MatchEq
                           | Some mo \<Rightarrow>
                               (let opText = sliceOf query mo
                                in if opText = ''!='' then MatchNeq
                                   else if opText = ''=~'' then MatchRegex
                                   else if opText = ''!~'' then MatchNotRegex
                                   else MatchEq));
                        rawValue = sliceOf query sl;
                        val = slice_1_minus1 rawValue
                    in ms @ [\<lparr>matcher_type = matchType, matcher_name = nm, matcher_value = val\<rparr>])
               | _ \<Rightarrow> ms)
         else ms)"

text \<open>The cursor walks the children from the first to the last sibling.\<close>

fun labelMatchersLoop :: "string \<Rightarrow> SyntaxNode list \<Rightarrow> LabelMatcher list \<Rightarrow> LabelMatcher list" where
  "labelMatchersLoop query [] ms = ms"
| "labelMatchersLoop query (cur # siblings) ms =
     labelMatchersLoop query siblings (labelMatcherStep query ms cur)"

definition parseLabelMatchers :: "SyntaxNode \<Rightarrow> string \<Rightarrow> LabelMatcher list" where
  "parseLabelMatchers node query = labelMatchersLoop query (kids node) []"

fun groupingLabelsLoop :: "string \<Rightarrow> SyntaxNode list \<Rightarrow> string list \<Rightarrow> string list" where
  "groupingLabelsLoop query [] labels = labels"
| "groupingLabelsLoop query (cur # siblings) labels =
     groupingLabelsLoop query siblings
       (if type_name cur = ''LabelName'' then labels @ [sliceOf query cur] else labels)"

definition parseGroupingLabels :: "SyntaxNode \<Rightarrow> string \<Rightarrow> string list" where
  "parseGroupingLabels node query = groupingLabelsLoop query (kids node) []"

subsection \<open>The AST builder\<close>

text \<open>Every \<^verbatim>\<open>while (child) { ... child = child.nextSibling }\<close> loop of the builder is a
  left fold over the children; its state is what the loop assigns: the list being pushed
  to, and for a binary or unary expression also the operator.\<close>

definition binaryOperatorKinds :: "string list" where
  "binaryOperatorKinds =
     [''Add'', ''Sub'', ''Mul'', ''Div'', ''Mod'', ''Pow'', ''Eql'', ''Neq'', ''Lss'', ''Lte'',
      ''Gtr'', ''Gte'', ''And'', ''Or'', ''Unless'']"

function buildAST :: "SyntaxNode \<Rightarrow> string \<Rightarrow> ParsedNode" where
  "buildAST node query =
     (let nodeType = type_name node;
          txt = sliceOf query node
      in
      if nodeType = ''PromQL'' \<or> nodeType = ''Expr'' then
        (case firstChild node of
           Some child \<Rightarrow> buildAST child query
         | None \<Rightarrow> errorNode txt None)
      else if nodeType = ''AggregateExpr'' then
        (let aggOp = getChild node ''AggregateOp'';
             modifier = getChild node ''AggregateModifier'';
             body = getChild node ''FunctionCallBody'';
             without = (case modifier of
                          None \<Rightarrow> False
                        | Some m \<Rightarrow> getChild m ''Without'' \<noteq> None);
             grouping = (case modifier of
                           None \<Rightarrow> []
                         | Some m \<Rightarrow>
                             (case getChild m ''GroupingLabels'' of
                                None \<Rightarrow> []
                              | Some labels \<Rightarrow> parseGroupingLabels labels query));
             chs = (case body of
                      None \<Rightarrow> []
                    | Some b \<Rightarrow>
                        (case firstChild b of
                           None \<Rightarrow> []
                         | Some child \<Rightarrow>
                             if isExpressionNode child then [buildAST child query] else []))
         in aggregationNode txt
              (case aggOp of
                 Some a \<Rightarrow> toLowerCase (sliceOf query a)
               | None \<Rightarrow> ''unknown'')
              grouping without chs)
      else if nodeType = ''FunctionCall'' then
        (let funcId = getChild node ''FunctionIdentifier'';
             body = getChild node ''FunctionCallBody'';
             as = (case body of
                     None \<Rightarrow> []
                   | Some b \<Rightarrow>
                       foldl (\<lambda>acc child.
                                if isExpressionNode child then acc @ [buildAST child query]
                                else acc)
                         [] (kids b))
         in callNode txt
              (case funcId of Some f \<Rightarrow> sliceOf query f | None \<Rightarrow> ''unknown'')
              as)
      else if nodeType = ''BinaryExpr'' then
        (let st = foldl (\<lambda>st child.
                           if isExpressionNode child
                           then (fst st @ [buildAST child query], snd st)
                           else if includes_str (type_name child) ''Op''
                                   \<or> type_name child \<in> set binaryOperatorKinds
                           then (fst st, sliceOf query child)
                           else st)
                    ([], []) (kids node)
         in binaryExprNode txt (snd st) (fst st))
      else if nodeType = ''VectorSelector'' then
        (let identifier = orNode (getChild node ''Identifier'')
                            (getChild node ''MetricIdentifier'');
             labelMatchersNode = getChild node ''LabelMatchers''
         in vectorSelectorNode txt
              (case identifier of Some i \<Rightarrow> sliceOf query i | None \<Rightarrow> [])
              (case labelMatchersNode of
                 Some l \<Rightarrow> parseLabelMatchers l query
               | None \<Rightarrow> []))
      else if nodeType = ''MatrixSelector'' then
        (let vectorSelector = getChild node ''VectorSelector'';
             durationNode = orNode (getChild node ''Duration'')
                              (getChild node ''NumberDurationLiteralInDurationContext'')
         in case vectorSelector of
              Some vs \<Rightarrow>
                (let vsAst = buildAST vs query
                 in matrixSelectorNode txt (name vsAst) (matchers vsAst)
                      (case durationNode of
                         Some d \<Rightarrow> parseDuration (sliceOf query d)
                       | None \<Rightarrow> 300000))
            | None \<Rightarrow>
                (case getChild node ''FunctionCall'' of
                   Some funcCall \<Rightarrow> buildAST funcCall query
                 | None \<Rightarrow> bareMatrixSelectorNode txt))
      else if nodeType = ''SubqueryExpr'' then
        subqueryNode txt
          (case getChild node ''Expr'' of
             Some expr \<Rightarrow> [buildAST expr query]
           | None \<Rightarrow> [])
      else if nodeType = ''NumberLiteral'' \<or> nodeType = ''NumberDurationLiteral'' then
        numberLiteralNode txt
      else if nodeType = ''StringLiteral'' then
        stringLiteralNode txt
      else if nodeType = ''ParenExpr'' then
        parenExprNode txt
          (case getChild node ''Expr'' of
             Some inner \<Rightarrow> [buildAST inner query]
           | None \<Rightarrow> [])
      else if nodeType = ''UnaryExpr'' then
        (let st = foldl (\<lambda>st current.
                           if type_name current = ''Add'' \<or> type_name current = ''Sub''
                           then (fst st, sliceOf query current)
                           else if isExpressionNode current
                           then (fst st @ [buildAST current query], snd st)
                           else st)
                    ([], []) (kids node)
         in unaryExprNode txt (snd st) (fst st))
      else
        (let chs = foldl (\<lambda>acc child.
                            if isExpressionNode child then acc @ [buildAST child query]
                            else acc)
                     [] (kids node)
         in if length chs = 1 then hd chs
            else errorNode txt (if 0 < length chs then Some chs else None)))"
  by pat_completeness auto
termination
  by (relation "measure (\<lambda>(node, query). size node)")
     (auto dest!: firstChild_size getChild_size size_kids)

declare buildAST.simps [simp del]

subsection \<open>The explanation generator\<close>

text \<open>\<^verbatim>\<open>table[key] || fallback\<close>: a key the table does not have, and an empty entry, both
  give the fallback.\<close>

definition lookupOr :: "(string \<times> string) list \<Rightarrow> string \<Rightarrow> string \<Rightarrow> string" where
  "lookupOr table k fallback = orElse (map_of table k) fallback"

definition opDescriptions_aggregation :: "(string \<times> string) list" where
  "opDescriptions_aggregation =
     [(''sum'', ''sums''),
      (''avg'', ''calculates the average of''),
      (''min'', ''finds the minimum of''),
      (''max'', ''finds the maximum of''),
      (''count'', ''counts''),
      (''stddev'', ''calculates the standard deviation of''),
      (''stdvar'', ''calculates the variance of''),
      (''topk'', ''returns the top K values of''),
      (''bottomk'', ''returns the bottom K values of''),
      (''quantile'', ''calculates a quantile of''),
      (''group'', ''groups'')]"

definition funcDescriptions :: "(string \<times> string) list" where
  "funcDescriptions =
     [(''rate'', ''calculates the per-second rate of increase''),
      (''irate'', ''calculates the instant rate of increase''),
      (''increase'', ''calculates the total increase''),
      (''delta'', ''calculates the difference between first and last value''),
      (''histogram_quantile'', ''calculates a percentile from histogram buckets''),
      (''label_replace'', ''replaces label values using regex''),
      (''label_join'', ''joins label values''),
      (''abs'', ''returns absolute values''),
      (''ceil'', ''rounds up to nearest integer''),
      (''floor'', ''rounds down to nearest integer''),
      (''round'', ''rounds to nearest integer''),
      (''sqrt'', ''calculates square root''),
      (''exp'', ''calculates exponential''),
      (''ln'', ''calculates natural logarithm''),
      (''log2'', ''calculates base-2 logarithm''),
      (''log10'', ''calculates base-10 logarithm''),
      (''time'', ''returns the current Unix timestamp''),
      (''timestamp'', ''returns the timestamp of each sample''),
      (''absent'', ''returns 1 if the series is absent''),
      (''absent_over_time'', ''returns 1 if the series has no values in the range''),
      (''changes'', ''counts value changes''),
      (''resets'', ''counts counter resets''),
      (''deriv'', ''calculates the derivative using linear regression''),
      (''predict_linear'', ''predicts future values using linear regression''),
      (''holt_winters'', ''applies Holt-Winters smoothing''),
      (''clamp'', ''clamps values between min and max''),
      (''clamp_min'', ''clamps values to a minimum''),
      (''clamp_max'', ''clamps values to a maximum''),
      (''sort'', ''sorts values ascending''),
      (''sort_desc'', ''sorts values descending''),
      (''avg_over_time'', ''calculates average over time range''),
      (''min_over_time'', ''finds minimum over time range''),
      (''max_over_time'', ''finds maximum over time range''),
      (''sum_over_time'', ''sums values over time range''),
      (''count_over_time'', ''counts samples over time range''),
      (''stddev_over_time'', ''calculates standard deviation over time range''),
      (''stdvar_over_time'', ''calculates variance over time range''),
      (''last_over_time'', ''returns last value in time range''),
      (''present_over_time'', ''returns 1 if any sample exists in range''),
      (''quantile_over_time'', ''calculates quantile over time range'')]"

definition opDescriptions_binary :: "(string \<times> string) list" where
  "opDescriptions_binary =
     [(''+'', ''adds''),
      (''-'', ''subtracts''),
      (''*'', ''multiplies''),
      (''/'', ''divides''),
      (''%'', ''calculates modulo of''),
      (''^'', ''raises to the power of''),
      (''=='', ''checks equality of''),
      (''!='', ''checks inequality of''),
      (''>'', ''compares (greater than)''),
      (''<'', ''compares (less than)''),
      (''>='', ''compares (greater or equal)''),
      (''<='', ''compares (less or equal)''),
      (''and'', ''performs logical AND on''),
      (''or'', ''performs logical OR on''),
      (''unless'', ''excludes matching series from'')]"

definition formatDuration :: "nat \<Rightarrow> string" where
  "formatDuration ms =
     (if 86400000 \<le> ms then showNat (ms div 86400000) @ ''d''
      else if 3600000 \<le> ms then showNat (ms div 3600000) @ ''h''
      else if 60000 \<le> ms then showNat (ms div 60000) @ ''m''
      else if 1000 \<le> ms then showNat (ms div 1000) @ ''s''
      else showNat ms @ ''ms'')"

text \<open>The callback of \<^verbatim>\<open>ast.matchers.map\<close> in the vector-selector case.\<close>

definition matcherDesc :: "LabelMatcher \<Rightarrow> string" where
  "matcherDesc m =
     (case matcher_type m of
        MatchEq \<Rightarrow> matcher_name m @ '' equals \"'' @ matcher_value m @ ''\"''
      | MatchNeq \<Rightarrow> matcher_name m @ '' does not equal \"'' @ matcher_value m @ ''\"''
      | MatchRegex \<Rightarrow> matcher_name m @ '' matches regex \"'' @ matcher_value m @ ''\"''
      | MatchNotRegex \<Rightarrow>
          matcher_name m @ '' does not match regex \"'' @ matcher_value m @ ''\"'')"

definition explainQuery :: "ParsedNode \<Rightarrow> string" where
  "explainQuery ast =
     (case node_type ast of
        aggregation \<Rightarrow>
          (let opDesc = lookupOr opDescriptions_aggregation (orElse (op ast) [])
                          (''applies '' @ interpolate (op ast) @ '' to'');
               explanation = ''This expression '' @ opDesc @ '' the values''
           in case grouping ast of
                None \<Rightarrow> explanation
              | Some g \<Rightarrow>
                  if 0 < length g
                  then if without ast = Some True
                       then explanation @ '', excluding labels: '' @ join '', '' g
                       else explanation @ '', grouped by: '' @ join '', '' g
                  else explanation)
      | call \<Rightarrow>
          (let desc = lookupOr funcDescriptions (orElse (funcName ast) [])
                        (''applies '' @ interpolate (funcName ast) @ ''()'')
           in ''The '' @ interpolate (funcName ast) @ ''() function '' @ desc)
      | vectorSelector \<Rightarrow>
          (let explanation = ''Selects the metric \"'' @ orElse (name ast) ''(any)'' @ ''\"''
           in case matchers ast of
                None \<Rightarrow> explanation
              | Some ms \<Rightarrow>
                  if 0 < length ms
                  then explanation @ '' where '' @ join '' AND '' (map matcherDesc ms)
                  else explanation)
      | matrixSelector \<Rightarrow>
          (let explanation =
                 ''Selects ''
                 @ (case range_ms ast of
                      None \<Rightarrow> ''5 minutes''
                    | Some r \<Rightarrow> if r = 0 then ''5 minutes'' else formatDuration r)
                 @ '' of data for \"'' @ orElse (name ast) ''(any)'' @ ''\"''
           in case matchers ast of
                None \<Rightarrow> explanation
              | Some ms \<Rightarrow>
                  if 0 < length ms then explanation @ '' with label filters'' else explanation)
      | binaryExpr \<Rightarrow>
          ''Binary operation that ''
          @ lookupOr opDescriptions_binary (orElse (op ast) []) (interpolate (op ast))
          @ '' two expressions''
      | numberLiteral \<Rightarrow> ''A scalar number with value '' @ interpolate (node_value ast)
      | stringLiteral \<Rightarrow> ''A string value: \"'' @ interpolate (node_value ast) @ ''\"''
      | parenExpr \<Rightarrow> ''Parentheses grouping a sub-expression''
      | unaryExpr \<Rightarrow> ''Unary '' @ (if op ast = Some ''-'' then ''negation'' else ''plus'') @ '' operator''
      | subquery \<Rightarrow> ''A subquery that evaluates an expression over a time range''
      | error \<Rightarrow> ''PromQL expression'')"

subsection \<open>The entry point\<close>

record ParseResult =
  success :: bool
  ast_of :: "ParsedNode option"
  error_of :: "string option"

text \<open>What a \<^verbatim>\<open>throw\<close> can carry: an \<^verbatim>\<open>Error\<close> with its message, or any other value.\<close>

datatype thrown = ErrorObject string | OtherValue

text \<open>\<^verbatim>\<open>error instanceof Error ? error.message : 'Unknown parse error'\<close>.\<close>

definition thrownMessage :: "thrown \<Rightarrow> string" where
  "thrownMessage e =
     (case e of ErrorObject message \<Rightarrow> message | OtherValue \<Rightarrow> ''Unknown parse error'')"

text \<open>\<^verbatim>\<open>cursor.iterate(enter)\<close> visits the nodes in source order; \<^verbatim>\<open>enter\<close> returns
  \<^verbatim>\<open>false\<close> at an error node, so the cursor does not descend below it. The state is the
  flag \<^verbatim>\<open>hasError\<close>.\<close>

function iterateErrors :: "SyntaxNode \<Rightarrow> bool \<Rightarrow> bool" where
  "iterateErrors node hasError =
     (if isError node then True
      else foldl (\<lambda>h c. iterateErrors c h) hasError (kids node))"
  by pat_completeness auto
termination
  by (relation "measure (\<lambda>(node, hasError). size node)") (auto dest!: size_kids)

declare iterateErrors.simps [simp del]

text \<open>The body of the \<^verbatim>\<open>try\<close> block. The parser of the grammar package is the parameter
  \<open>parser\<close>: it returns a tree or throws. \<^term>\<open>Inl\<close> is an exception leaving the block.\<close>

definition parseQuery_try ::
  "(string \<Rightarrow> thrown + SyntaxNode) \<Rightarrow> string \<Rightarrow> thrown + ParseResult" where
  "parseQuery_try parser query =
     (case parser query of
        Inl e \<Rightarrow> Inl e
      | Inr tree \<Rightarrow>
          (let hasError = iterateErrors tree False
           in if hasError
              then Inr \<lparr>success = False, ast_of = None, error_of = Some ''Parse error in query''\<rparr>
              else case firstChild tree of
                     None \<Rightarrow>
                       Inr \<lparr>success = False, ast_of = None, error_of = Some ''Empty query''\<rparr>
                   | Some child \<Rightarrow>
                       Inr \<lparr>success = True, ast_of = Some (buildAST child query),
                            error_of = None\<rparr>))"

text \<open>\<^verbatim>\<open>parseQuery\<close>: the \<^verbatim>\<open>try\<close> block with its \<^verbatim>\<open>catch\<close> clause. The result type keeps
  \<^term>\<open>Inl\<close>, an exception leaving \<^verbatim>\<open>parseQuery\<close>, as a possible outcome.\<close>

definition parseQuery ::
  "(string \<Rightarrow> thrown + SyntaxNode) \<Rightarrow> string \<Rightarrow> thrown + ParseResult" where
  "parseQuery parser query =
     (case parseQuery_try parser query of
        Inr result \<Rightarrow> Inr result
      | Inl e \<Rightarrow>
          Inr \<lparr>success = False, ast_of = None, error_of = Some (thrownMessage e)\<rparr>)"

section \<open>The specification's wording\<close>

text \<open>
  The definitions of this section are not translations of the source. They say what the
  specification says, in its own terms, so that the source can be compared with it.
\<close>

subsection \<open>Durations\<close>

text \<open>
  The specification describes the duration parser without the regular expression: the text
  is read from left to right; wherever an integer (a run of digits) is followed by a unit,
  the integer times the unit's milliseconds is added, and reading goes on behind the unit;
  any other character is passed over. The definitions follow that wording, on the text
  itself rather than on positions, with the table of units as the specification lists it.
\<close>

definition spec_unit_ms :: "string \<Rightarrow> nat" where
  "spec_unit_ms u =
     (if u = ''ms'' then 1 else if u = ''s'' then 1000 else if u = ''m'' then 60000
      else if u = ''h'' then 3600000 else if u = ''d'' then 86400000
      else if u = ''w'' then 604800000 else if u = ''y'' then 31536000000 else 0)"

text \<open>The unit a text starts with, if any; \<open>ms\<close> is one unit, not \<open>m\<close> followed by \<open>s\<close>.\<close>

definition spec_unit_at :: "string \<Rightarrow> string option" where
  "spec_unit_at t =
     (if prefix ''ms'' t then Some ''ms''
      else case t of [] \<Rightarrow> None
           | c # _ \<Rightarrow> if c \<in> set ''smhdwy'' then Some [c] else None)"

text \<open>The integer a run of digits denotes: the leading digit weighs ten to the number of
  digits behind it.\<close>

fun spec_integer :: "string \<Rightarrow> nat" where
  "spec_integer [] = 0"
| "spec_integer (c # cs) = digitValue c * 10 ^ length cs + spec_integer cs"

text \<open>An \<open><integer><unit>\<close> token at the start of a text: its integer, its unit and its length.\<close>

definition spec_token :: "string \<Rightarrow> (nat \<times> string \<times> nat) option" where
  "spec_token t =
     (let ds = takeWhile isDigit t
      in if ds = [] then None
         else case spec_unit_at (dropWhile isDigit t) of
                None \<Rightarrow> None
              | Some u \<Rightarrow> Some (spec_integer ds, u, length ds + length u))"

lemma spec_token_len: "spec_token t = Some (n, u, len) \<Longrightarrow> 0 < len"
  by (auto simp: spec_token_def Let_def split: if_splits option.splits)

text \<open>Every match, from left to right.\<close>

function spec_matches :: "string \<Rightarrow> (nat \<times> string) list" where
  "spec_matches [] = []"
| "spec_matches (c # cs) =
     (case spec_token (c # cs) of
        Some (n, u, len) \<Rightarrow> (n, u) # spec_matches (drop len (c # cs))
      | None \<Rightarrow> spec_matches cs)"
  by pat_completeness auto
termination
  by (relation "measure length") (auto dest!: spec_token_len)

lemma matchUnit_spec: "matchUnit s q = spec_unit_at (drop q s)"
proof (cases "drop q s")
  case Nil
  then show ?thesis by (simp add: matchUnit_def unitAlternatives_def spec_unit_at_def)
next
  case (Cons c cs)
  then show ?thesis
    by (cases cs) (simp_all add: matchUnit_def unitAlternatives_def spec_unit_at_def)
qed

lemma spec_unit_at_digit: "isDigit c \<Longrightarrow> spec_unit_at (c # cs) = None"
  by (auto simp: spec_unit_at_def isDigit_def)

lemma parseInt_spec: "parseInt ds = spec_integer ds"
proof -
  have "foldl (\<lambda>n c. 10 * n + digitValue c) n ds = n * 10 ^ length ds + spec_integer ds" for n
    by (induction ds arbitrary: n) (simp_all add: algebra_simps)
  then show ?thesis by (simp add: parseInt_def)
qed

lemma unitFactor_spec: "unitFactor u = spec_unit_ms u"
  by (simp add: unitFactor_def units_def spec_unit_ms_def)

definition spec_total :: "string \<Rightarrow> nat" where
  "spec_total s = sum_list (map (\<lambda>(n, u). n * spec_unit_ms u) (spec_matches s))"



subsection \<open>Trees\<close>



text \<open>The kinds that \<^verbatim>\<open>buildAST\<close> has a case for; every other kind is unrecognized.\<close>

definition recognizedKinds :: "string list" where
  "recognizedKinds =
     [''PromQL'', ''Expr'', ''AggregateExpr'', ''FunctionCall'', ''BinaryExpr'',
      ''VectorSelector'', ''MatrixSelector'', ''SubqueryExpr'', ''NumberLiteral'',
      ''NumberDurationLiteral'', ''StringLiteral'', ''ParenExpr'', ''UnaryExpr'']"

subsection \<open>Label matchers\<close>

text \<open>
  A single matcher is a child of one of three kinds. It counts when it has a label name and
  a string literal; its operator is the text of its match operator when that is \<open>!=\<close>, \<open>=~\<close>
  or \<open>!~\<close>, and \<open>=\<close> otherwise; its value is the literal without its first and last
  character. A matcher is read as the triple of its name, its operator token and its value.
\<close>

definition spec_matcherKinds :: "string list" where
  "spec_matcherKinds = [''LabelMatcher'', ''UnquotedLabelMatcher'', ''QuotedLabelMatcher'']"

definition spec_operator :: "string option \<Rightarrow> string" where
  "spec_operator opText =
     (case opText of
        None \<Rightarrow> ''=''
      | Some t \<Rightarrow> if t \<in> set [''!='', ''=~'', ''!~''] then t else ''='')"

definition spec_stripQuotes :: "string \<Rightarrow> string" where
  "spec_stripQuotes s = butlast (tl s)"

definition spec_matcher :: "string \<Rightarrow> SyntaxNode \<Rightarrow> (string \<times> string \<times> string) option" where
  "spec_matcher query c =
     (if type_name c \<in> set spec_matcherKinds
      then case (getChild c ''LabelName'', getChild c ''StringLiteral'') of
             (Some ln, Some sl) \<Rightarrow>
               Some (sliceOf query ln,
                     spec_operator (map_option (sliceOf query) (getChild c ''MatchOp'')),
                     spec_stripQuotes (sliceOf query sl))
           | _ \<Rightarrow> None
      else None)"

definition matcherTriple :: "LabelMatcher \<Rightarrow> string \<times> string \<times> string" where
  "matcherTriple m = (matcher_name m, matchTypeText (matcher_type m), matcher_value m)"

subsection \<open>Explanations\<close>

text \<open>The sentences of the explanation generator, as the specification builds them.\<close>

definition spec_relation :: "string \<Rightarrow> string" where
  "spec_relation operator =
     (if operator = ''='' then ''equals''
      else if operator = ''!='' then ''does not equal''
      else if operator = ''=~'' then ''matches regex''
      else ''does not match regex'')"

definition spec_matcherText :: "LabelMatcher \<Rightarrow> string" where
  "spec_matcherText m =
     matcher_name m @ '' '' @ spec_relation (matchTypeText (matcher_type m))
     @ '' \"'' @ matcher_value m @ ''\"''"

definition spec_whereClause :: "LabelMatcher list option \<Rightarrow> string" where
  "spec_whereClause ms =
     (case ms of
        None \<Rightarrow> []
      | Some l \<Rightarrow> if l = [] then [] else '' where '' @ join '' AND '' (map spec_matcherText l))"



definition spec_filterSuffix :: "LabelMatcher list option \<Rightarrow> string" where
  "spec_filterSuffix ms =
     (case ms of None \<Rightarrow> [] | Some l \<Rightarrow> if l = [] then [] else '' with label filters'')"

subsection \<open>Example trees\<close>

text \<open>
  Trees of the shape the grammar gives, with the positions of their queries. The label
  matchers of \<^verbatim>\<open>{status=~"5.."}\<close> and of \<^verbatim>\<open>{instance!="a"}\<close>:
\<close>

definition statusMatchers :: SyntaxNode where
  "statusMatchers =
     SyntaxNode ''LabelMatchers'' [] False 0 15
       [SyntaxNode ''UnquotedLabelMatcher'' [] False 1 14
          [SyntaxNode ''LabelName'' [] False 1 7 [],
           SyntaxNode ''MatchOp'' [] False 7 9 [SyntaxNode ''EqlRegex'' [] False 7 9 []],
           SyntaxNode ''StringLiteral'' [''Expr''] False 9 14 []]]"

definition instanceMatchers :: SyntaxNode where
  "instanceMatchers =
     SyntaxNode ''LabelMatchers'' [] False 0 15
       [SyntaxNode ''UnquotedLabelMatcher'' [] False 1 14
          [SyntaxNode ''LabelName'' [] False 1 9 [],
           SyntaxNode ''MatchOp'' [] False 9 11 [SyntaxNode ''Neq'' [] False 9 11 []],
           SyntaxNode ''StringLiteral'' [''Expr''] False 11 14 []]]"

text \<open>A step-invariant expression \<^verbatim>\<open>foo @ start\<close>, which the builder has no case for, and a
  node of a made-up kind over two numbers:\<close>

definition stepInvariantExample :: SyntaxNode where
  "stepInvariantExample =
     SyntaxNode ''StepInvariantExpr'' [''Expr''] False 0 11
       [SyntaxNode ''VectorSelector'' [''Expr''] False 0 3
          [SyntaxNode ''Identifier'' [] False 0 3 []],
        SyntaxNode ''At'' [] False 4 5 [],
        SyntaxNode ''AtModifierPreprocessors'' [] False 6 11
          [SyntaxNode ''Start'' [] False 6 11 []]]"

definition twoNumbersExample :: SyntaxNode where
  "twoNumbersExample =
     SyntaxNode ''Pair'' [] False 0 3
       [SyntaxNode ''NumberLiteral'' [''Expr''] False 0 1 [],
        SyntaxNode ''NumberLiteral'' [''Expr''] False 2 3 []]"

text \<open>The range \<^verbatim>\<open>(foo)[5m]\<close> of a parenthesized selector, and the range \<^verbatim>\<open>foo[..]\<close> of a
  selector with a duration child of a given kind:\<close>

definition parenthesizedRange :: SyntaxNode where
  "parenthesizedRange =
     SyntaxNode ''MatrixSelector'' [''Expr''] False 0 9
       [SyntaxNode ''ParenExpr'' [''Expr''] False 0 5
          [SyntaxNode ''VectorSelector'' [''Expr''] False 1 4
             [SyntaxNode ''Identifier'' [] False 1 4 []]],
        SyntaxNode ''Duration'' [] False 6 8 []]"

definition rangeExample :: "string \<Rightarrow> SyntaxNode" where
  "rangeExample durationKind =
     SyntaxNode ''MatrixSelector'' [''Expr''] False 0 7
       [SyntaxNode ''VectorSelector'' [''Expr''] False 0 3
          [SyntaxNode ''Identifier'' [] False 0 3 []],
        SyntaxNode durationKind [] False 4 6 []]"

text \<open>The selector \<^verbatim>\<open>{status!~"5.",method="POST"}\<close>, which names no metric:\<close>

definition matchersOnly :: SyntaxNode where
  "matchersOnly =
     SyntaxNode ''VectorSelector'' [''Expr''] False 0 28
       [SyntaxNode ''LabelMatchers'' [] False 0 28
          [SyntaxNode ''UnquotedLabelMatcher'' [] False 1 13
             [SyntaxNode ''LabelName'' [] False 1 7 [],
              SyntaxNode ''MatchOp'' [] False 7 9 [SyntaxNode ''NeqRegex'' [] False 7 9 []],
              SyntaxNode ''StringLiteral'' [''Expr''] False 9 13 []],
           SyntaxNode ''UnquotedLabelMatcher'' [] False 14 27
             [SyntaxNode ''LabelName'' [] False 14 20 [],
              SyntaxNode ''MatchOp'' [] False 20 21 [SyntaxNode ''EqlSingle'' [] False 20 21 []],
              SyntaxNode ''StringLiteral'' [''Expr''] False 21 27 []]]]"



section \<open>The source against the specification\<close>

subsection \<open>The regular expression finds the specified matches\<close>

lemma digit_in_run:
  assumes "j < length (takeWhile isDigit t)"
  shows "drop j t \<noteq> [] \<and> isDigit (hd (drop j t))"
proof -
  from assms have jt: "j < length t"
    using length_takeWhile_le [of isDigit t] by simp
  from assms have "takeWhile isDigit t ! j \<in> set (takeWhile isDigit t)"
    by (rule nth_mem)
  then have "isDigit (takeWhile isDigit t ! j)"
    by (auto dest: set_takeWhileD)
  with assms have "isDigit (t ! j)" by (simp add: takeWhile_nth)
  with jt show ?thesis by (simp add: hd_drop_conv_nth)
qed

lemma matchUnit_in_run:
  assumes "j < length (takeWhile isDigit (drop p s))"
  shows "matchUnit s (p + j) = None"
proof -
  from digit_in_run [OF assms] obtain c cs
    where "drop j (drop p s) = c # cs" and "isDigit c"
    by (cases "drop j (drop p s)") auto
  then show ?thesis by (simp add: matchUnit_spec add.commute spec_unit_at_digit)
qed

lemma backtrack_in_run:
  "j < length (takeWhile isDigit (drop p s)) \<Longrightarrow> backtrack s p j = None"
proof (induction j)
  case 0
  show ?case by simp
next
  case (Suc j)
  from Suc.prems have "matchUnit s (p + Suc j) = None" by (rule matchUnit_in_run)
  moreover from Suc have "backtrack s p j = None" by simp
  ultimately show ?case by simp
qed

lemma matchAt_spec:
  "matchAt s p =
     (case spec_token (drop p s) of
        None \<Rightarrow> None
      | Some (n, u, len) \<Rightarrow> Some (takeWhile isDigit (drop p s), u, p + len))"
proof -
  define t where "t = drop p s"
  define ds where "ds = takeWhile isDigit t"
  show ?thesis
  proof (cases "length ds")
    case 0
    then have "ds = []" by simp
    then show ?thesis
      unfolding matchAt_def spec_token_def t_def [symmetric] ds_def [symmetric] by simp
  next
    case (Suc j)
    then have ne: "ds \<noteq> []" by auto
    from Suc have below: "backtrack s p j = None"
      unfolding ds_def t_def by (simp add: backtrack_in_run)
    have "drop (p + Suc j) s = dropWhile isDigit t"
      using Suc unfolding ds_def t_def
      by (metis add.commute drop_drop dropWhile_eq_drop)
    then have rest: "drop (Suc (p + j)) s = dropWhile isDigit t" by simp
    have first: "take (Suc j) t = ds"
      using Suc unfolding ds_def by (metis takeWhile_eq_take)
    have "matchAt s p = backtrack s p (Suc j)"
      using Suc unfolding matchAt_def ds_def t_def by simp
    also have "\<dots> = (case spec_unit_at (dropWhile isDigit t) of
                       None \<Rightarrow> None
                     | Some u \<Rightarrow> Some (ds, u, p + (length ds + length u)))"
      using below first Suc
      by (simp add: matchUnit_spec rest t_def [symmetric] split: option.splits)
    also have "\<dots> = (case spec_token t of
                       None \<Rightarrow> None
                     | Some (n, u, len) \<Rightarrow> Some (ds, u, p + len))"
      using ne unfolding spec_token_def ds_def [symmetric]
      by (simp split: option.splits)
    finally show ?thesis unfolding t_def ds_def .
  qed
qed

lemma spec_token_value:
  "spec_token t = Some (n, u, len) \<Longrightarrow> n = parseInt (takeWhile isDigit t)"
  by (auto simp: spec_token_def Let_def parseInt_spec split: if_splits option.splits)

lemma spec_matches_drop:
  assumes "p < length s"
  shows "spec_matches (drop p s) =
     (case spec_token (drop p s) of
        Some (n, u, len) \<Rightarrow> (n, u) # spec_matches (drop (p + len) s)
      | None \<Rightarrow> spec_matches (drop (Suc p) s))"
proof -
  from assms obtain c cs where t: "drop p s = c # cs" by (cases "drop p s") auto
  then have cs: "cs = drop (Suc p) s" by (metis drop_Suc list.sel(3) tl_drop)
  have "spec_matches (drop p s) =
     (case spec_token (drop p s) of
        Some (n, u, len) \<Rightarrow> (n, u) # spec_matches (drop len (drop p s))
      | None \<Rightarrow> spec_matches cs)"
    unfolding t by simp
  then show ?thesis by (auto simp: cs add.commute split: option.splits)
qed

lemma regexExec_None: "regexExec s p = None \<Longrightarrow> spec_matches (drop p s) = []"
proof (induction s p rule: regexExec.induct)
  case (1 s p)
  show ?case
  proof (cases "length s \<le> p")
    case True
    then show ?thesis by simp
  next
    case False
    with "1.prems" have m: "matchAt s p = None" and r: "regexExec s (Suc p) = None"
      by (auto simp: regexExec.simps [of s p] split: option.splits)
    from m have "spec_token (drop p s) = None"
      by (auto simp: matchAt_spec split: option.splits)
    with False "1.IH" m r show ?thesis by (simp add: spec_matches_drop)
  qed
qed

lemma regexExec_Some:
  "regexExec s p = Some (g1, g2, e) \<Longrightarrow>
     spec_matches (drop p s) = (parseInt g1, g2) # spec_matches (drop e s)"
proof (induction s p rule: regexExec.induct)
  case (1 s p)
  show ?case
  proof (cases "length s \<le> p")
    case True
    with "1.prems" show ?thesis by (simp add: regexExec.simps [of s p])
  next
    case False
    show ?thesis
    proof (cases "matchAt s p")
      case None
      with False "1.prems" have r: "regexExec s (Suc p) = Some (g1, g2, e)"
        by (simp add: regexExec.simps [of s p])
      from None have "spec_token (drop p s) = None"
        by (auto simp: matchAt_spec split: option.splits)
      with False "1.IH" None r show ?thesis by (simp add: spec_matches_drop)
    next
      case (Some m)
      with False "1.prems" have m: "matchAt s p = Some (g1, g2, e)"
        by (simp add: regexExec.simps [of s p])
      then obtain n len where tok: "spec_token (drop p s) = Some (n, g2, len)"
        and g1: "g1 = takeWhile isDigit (drop p s)" and e: "e = p + len"
        by (auto simp: matchAt_spec split: option.splits)
      from spec_token_value [OF tok] g1 have "n = parseInt g1" by simp
      with False tok e show ?thesis by (simp add: spec_matches_drop)
    qed
  qed
qed

lemma durationLoop_spec: "durationLoop s p tot = tot + spec_total (drop p s)"
proof (induction s p tot rule: durationLoop.induct)
  case (1 s lastIndex tot)
  show ?case
  proof (cases "regexExec s lastIndex")
    case None
    then show ?thesis
      by (simp add: durationLoop.simps [of s lastIndex] regexExec_None spec_total_def)
  next
    case (Some m)
    obtain g1 g2 e where m: "m = (g1, g2, e)" by (cases m) auto
    from Some m "1.IH" have "durationLoop s e (tot + parseInt g1 * unitFactor g2)
        = tot + parseInt g1 * unitFactor g2 + spec_total (drop e s)"
      by simp
    with Some m show ?thesis
      by (simp add: durationLoop.simps [of s lastIndex] regexExec_Some spec_total_def unitFactor_spec)
  qed
qed

lemma parseDuration_spec:
  "parseDuration s = (if spec_total s = 0 then 300000 else spec_total s)"
  by (simp add: parseDuration_def durationLoop_spec)

lemma parseDuration_positive: "0 < parseDuration s"
  by (simp add: parseDuration_def Let_def)

lemma parseDuration_no_match: "spec_matches s = [] \<Longrightarrow> parseDuration s = 300000"
  by (simp add: parseDuration_spec spec_total_def)

subsection \<open>The error scan\<close>




subsection \<open>The label-matcher loop\<close>

lemma slice_1_minus1_spec: "slice_1_minus1 s = spec_stripQuotes s"
proof (cases s)
  case Nil
  then show ?thesis by (simp add: slice_1_minus1_def slice_def spec_stripQuotes_def)
next
  case (Cons c cs)
  then show ?thesis
    by (cases cs rule: rev_cases)
       (simp_all add: slice_1_minus1_def slice_def spec_stripQuotes_def Let_def)
qed

lemma matcherTriple_inj: "matcherTriple a = matcherTriple b \<Longrightarrow> a = b"
proof -
  have "matchTypeText x = matchTypeText y \<Longrightarrow> x = y" for x y
    by (cases x; cases y) simp_all
  then show "matcherTriple a = matcherTriple b \<Longrightarrow> a = b"
    by (cases a; cases b) (auto simp: matcherTriple_def)
qed

lemma labelMatcherStep_append:
  "labelMatcherStep query ms c = ms @ labelMatcherStep query [] c"
  by (simp add: labelMatcherStep_def Let_def split: option.splits)

lemma labelMatchersLoop_concat:
  "labelMatchersLoop query cs ms = ms @ concat (map (labelMatcherStep query []) cs)"
proof (induction cs arbitrary: ms)
  case Nil
  show ?case by simp
next
  case (Cons c cs)
  then show ?case by (simp add: labelMatcherStep_append [of query ms c])
qed

lemma labelMatcherStep_spec:
  "map matcherTriple (labelMatcherStep query [] c)
     = (case spec_matcher query c of None \<Rightarrow> [] | Some t \<Rightarrow> [t])"
  by (simp add: labelMatcherStep_def spec_matcher_def spec_matcherKinds_def spec_operator_def
        matcherTriple_def slice_1_minus1_spec Let_def
      split: option.splits)

lemma map_filter_concat:
  "List.map_filter f xs = concat (map (\<lambda>x. case f x of None \<Rightarrow> [] | Some y \<Rightarrow> [y]) xs)"
  by (induction xs) (simp_all add: List.map_filter_simps split: option.splits)

lemma parseLabelMatchers_spec:
  "map matcherTriple (parseLabelMatchers node query)
     = List.map_filter (spec_matcher query) (kids node)"
  by (simp add: parseLabelMatchers_def labelMatchersLoop_concat map_concat
        map_filter_concat labelMatcherStep_spec comp_def)

subsection \<open>The cases of the builder\<close>

lemma foldl_push:
  "foldl (\<lambda>acc c. if P c then acc @ [f c] else acc) acc cs = acc @ map f (filter P cs)"
  by (induction cs arbitrary: acc) simp_all

lemma buildAST_default:
  assumes "type_name node \<notin> set recognizedKinds"
  shows "buildAST node query =
           (let chs = map (\<lambda>c. buildAST c query) (filter isExpressionNode (kids node))
            in if length chs = 1 then hd chs
               else errorNode (sliceOf query node) (if chs = [] then None else Some chs))"
  using assms
  by (subst buildAST.simps) (simp add: recognizedKinds_def Let_def foldl_push)

lemma buildAST_VectorSelector:
  assumes "type_name node = ''VectorSelector''"
  shows "buildAST node query =
           vectorSelectorNode (sliceOf query node)
             (case orNode (getChild node ''Identifier'') (getChild node ''MetricIdentifier'') of
                Some i \<Rightarrow> sliceOf query i
              | None \<Rightarrow> [])
             (case getChild node ''LabelMatchers'' of
                Some l \<Rightarrow> parseLabelMatchers l query
              | None \<Rightarrow> [])"
  using assms
  by (subst buildAST.simps) (simp add: Let_def)

lemma buildAST_MatrixSelector:
  assumes "type_name node = ''MatrixSelector''"
  shows "buildAST node query =
           (case getChild node ''VectorSelector'' of
              Some vs \<Rightarrow>
                matrixSelectorNode (sliceOf query node)
                  (name (buildAST vs query)) (matchers (buildAST vs query))
                  (case orNode (getChild node ''Duration'')
                          (getChild node ''NumberDurationLiteralInDurationContext'') of
                     Some d \<Rightarrow> parseDuration (sliceOf query d)
                   | None \<Rightarrow> 300000)
            | None \<Rightarrow>
                (case getChild node ''FunctionCall'' of
                   Some funcCall \<Rightarrow> buildAST funcCall query
                 | None \<Rightarrow> bareMatrixSelectorNode (sliceOf query node)))"
  using assms
  by (subst buildAST.simps) (simp add: Let_def split: option.splits)

subsection \<open>The sentences of the explanation generator\<close>

lemma matcherDesc_spec: "matcherDesc = spec_matcherText"
proof
  fix m
  show "matcherDesc m = spec_matcherText m"
    by (cases "matcher_type m")
       (simp_all add: matcherDesc_def spec_matcherText_def spec_relation_def)
qed

lemma explain_vectorSelector:
  assumes "node_type ast = vectorSelector"
  shows "explainQuery ast =
           ''Selects the metric \"'' @ orElse (name ast) ''(any)'' @ ''\"''
           @ spec_whereClause (matchers ast)"
  using assms
  by (simp add: explainQuery_def spec_whereClause_def matcherDesc_spec Let_def
      split: option.splits)



lemma digitChar_digit: "d < 10 \<Longrightarrow> digitChar d \<in> set ''0123456789''"
  unfolding digitChar_def by (rule nth_mem) simp

lemma showNat_digits: "set (showNat n) \<subseteq> set ''0123456789''"
proof (induction n rule: showNat.induct)
  case (1 n)
  show ?case
  proof (cases "n < 10")
    case True
    then show ?thesis
      using digitChar_digit [of n] by (simp add: showNat.simps [of n])
  next
    case False
    have "digitChar (n mod 10) \<in> set ''0123456789''"
      by (rule digitChar_digit) simp
    with False "1.IH" show ?thesis
      by (simp add: showNat.simps [of n])
  qed
qed

lemma formatDuration_no_space: "CHR '' '' \<notin> set (formatDuration r)"
proof -
  have "CHR '' '' \<notin> set (showNat k)" for k
    using showNat_digits [of k] by auto
  then show ?thesis by (simp add: formatDuration_def)
qed

lemma formatDuration_not_words: "formatDuration r \<noteq> ''5 minutes''"
proof
  assume "formatDuration r = ''5 minutes''"
  then have "CHR '' '' \<in> set (formatDuration r)" by simp
  with formatDuration_no_space show False by blast
qed


lemma explain_matrixSelector_spec:
  assumes "node_type ast = matrixSelector"
  shows "explainQuery ast =
           ''Selects ''
           @ (if range_ms ast = None \<or> range_ms ast = Some 0 then ''5 minutes''
              else formatDuration (the (range_ms ast)))
           @ '' of data for \"'' @ orElse (name ast) ''(any)'' @ ''\"''
           @ spec_filterSuffix (matchers ast)"
  using assms
  by (simp add: explainQuery_def spec_filterSuffix_def Let_def split: option.splits)

section \<open>The claims\<close>

subsection \<open>C1: the entry point never throws\<close>

text \<open>
  Claim C1. For every input string, the empty string, blank strings and garbled text
  included, \<^verbatim>\<open>parseQuery\<close> returns a well-formed \<^verbatim>\<open>ParseResult\<close> and never throws: every
  failure, an exception thrown by the parser of the grammar included, becomes a result
  \<^verbatim>\<open>{success: false, error: ...}\<close>. Well-formed: a successful result carries a tree and no
  error, a failed one an error and no tree. The parser is arbitrary here.
\<close>

theorem parseQuery_never_throws:
  "\<exists>r. parseQuery parser query = Inr r
       \<and> success r = (ast_of r \<noteq> None)
       \<and> success r = (error_of r = None)
       \<and> (\<forall>e. parser query = Inl e \<longrightarrow>
             r = \<lparr>success = False, ast_of = None, error_of = Some (thrownMessage e)\<rparr>)"
proof (cases "parser query")
  case (Inl e)
  then show ?thesis by (simp add: parseQuery_def parseQuery_try_def)
next
  case (Inr tree)
  then show ?thesis
    by (cases "firstChild tree") (simp_all add: parseQuery_def parseQuery_try_def Let_def)
qed

theorem parseQuery_never_throws_witness:
  "parseQuery (\<lambda>q. Inl (ErrorObject ''No parse at 0'')) ''  ''
     = Inr \<lparr>success = False, ast_of = None, error_of = Some ''No parse at 0''\<rparr>
   \<and> parseQuery (\<lambda>q. Inl OtherValue) []
     = Inr \<lparr>success = False, ast_of = None, error_of = Some ''Unknown parse error''\<rparr>
   \<and> parseQuery
         (\<lambda>q. Inr (SyntaxNode ''PromQL'' [] False 0 2
                     [SyntaxNode ''VectorSelector'' [''Expr''] False 0 2
                        [SyntaxNode ''Identifier'' [] False 0 2 []]]))
         ''up''
     = Inr \<lparr>success = True, ast_of = Some (vectorSelectorNode ''up'' ''up'' []),
            error_of = None\<rparr>"
proof -
  have "parseQuery
         (\<lambda>q. Inr (SyntaxNode ''PromQL'' [] False 0 2
                     [SyntaxNode ''VectorSelector'' [''Expr''] False 0 2
                        [SyntaxNode ''Identifier'' [] False 0 2 []]]))
         ''up''
     = Inr \<lparr>success = True, ast_of = Some (vectorSelectorNode ''up'' ''up'' []),
            error_of = None\<rparr>"
    by code_simp
  then show ?thesis
    using parseQuery_never_throws [of "\<lambda>q. Inl (ErrorObject ''No parse at 0'')" "''  ''"]
      parseQuery_never_throws [of "\<lambda>q. Inl OtherValue" "[]"]
    by (auto simp: thrownMessage_def)
qed

subsection \<open>C2: the range of a matrix selector\<close>

text \<open>
  Claim C2 says that every \<^verbatim>\<open>matrixSelector\<close> node the builder produces has a range, a
  positive number of milliseconds. The builder's last \<^verbatim>\<open>return\<close> in the matrix-selector
  case produces one without: for \<^verbatim>\<open>(foo)[5m]\<close> the matrix selector wraps a parenthesized
  expression, neither a vector selector nor a function call.
\<close>

theorem matrixSelector_range_absent:
  "node_type (buildAST parenthesizedRange ''(foo)[5m]'') = matrixSelector
   \<and> range_ms (buildAST parenthesizedRange ''(foo)[5m]'') = None"
  by (simp add: buildAST_MatrixSelector parenthesizedRange_def getChild_def typeIs_def
        bareMatrixSelectorNode_def)

text \<open>
  Claim C2, as amended. For every matrix-selector node of the concrete tree that has a
  vector-selector child, the builder produces a \<^verbatim>\<open>matrixSelector\<close> node whose range is
  present and a positive number of milliseconds; the range is 300000 whenever no duration
  child is found, and whenever the text of the duration child holds no duration. A
  matrix-selector node with neither a vector-selector nor a function-call child gives a
  \<^verbatim>\<open>matrixSelector\<close> node without a range.
\<close>

theorem matrixSelector_range:
  assumes "type_name node = ''MatrixSelector''"
  shows "(getChild node ''VectorSelector'' \<noteq> None
          \<longrightarrow> node_type (buildAST node query) = matrixSelector
              \<and> (\<exists>r. range_ms (buildAST node query) = Some r \<and> 0 < r
                     \<and> (orNode (getChild node ''Duration'')
                           (getChild node ''NumberDurationLiteralInDurationContext'') = None
                         \<longrightarrow> r = 300000)
                     \<and> (\<forall>d. orNode (getChild node ''Duration'')
                                (getChild node ''NumberDurationLiteralInDurationContext'') = Some d
                              \<and> spec_matches (sliceOf query d) = []
                         \<longrightarrow> r = 300000)))
       \<and> (getChild node ''VectorSelector'' = None \<and> getChild node ''FunctionCall'' = None
          \<longrightarrow> node_type (buildAST node query) = matrixSelector
              \<and> range_ms (buildAST node query) = None)"
proof (cases "orNode (getChild node ''Duration'')
                (getChild node ''NumberDurationLiteralInDurationContext'')")
  case None
  with assms show ?thesis
    by (auto simp: buildAST_MatrixSelector matrixSelectorNode_def bareMatrixSelectorNode_def)
next
  case (Some d)
  with assms show ?thesis
    by (auto simp: buildAST_MatrixSelector matrixSelectorNode_def bareMatrixSelectorNode_def
          parseDuration_positive parseDuration_no_match)
qed

theorem matrixSelector_range_witness:
  "range_ms (buildAST (rangeExample ''Duration'') ''foo[1h]'') = Some 3600000
   \<and> range_ms (buildAST (rangeExample ''NumberDurationLiteralInDurationContext'') ''foo[5x]'')
       = Some 300000
   \<and> range_ms (buildAST (rangeExample ''Number'') ''foo[1h]'') = Some 300000
   \<and> range_ms (buildAST parenthesizedRange ''(foo)[5m]'') = None"
proof -
  let ?vs = "SyntaxNode ''VectorSelector'' [''Expr''] False 0 3
               [SyntaxNode ''Identifier'' [] False 0 3 []]"
  have vs: "getChild (rangeExample k) ''VectorSelector'' = Some ?vs" for k
    by (simp add: rangeExample_def getChild_def typeIs_def)
  have kind: "type_name (rangeExample k) = ''MatrixSelector''" for k
    by (simp add: rangeExample_def)
  have pkind: "type_name parenthesizedRange = ''MatrixSelector''"
    and pnone: "getChild parenthesizedRange ''VectorSelector'' = None"
      "getChild parenthesizedRange ''FunctionCall'' = None"
    by (simp_all add: parenthesizedRange_def getChild_def typeIs_def)
  have "range_ms (buildAST (rangeExample ''Duration'') ''foo[1h]'')
          = Some (parseDuration ''1h'')"
    by (simp add: buildAST_MatrixSelector kind vs matrixSelectorNode_def)
       (simp add: rangeExample_def getChild_def typeIs_def orNode_def sliceOf_def slice_def)
  moreover have "parseDuration ''1h'' = 3600000" by code_simp
  moreover have "spec_matches ''5x'' = []" by code_simp
  moreover have
    "orNode (getChild (rangeExample ''NumberDurationLiteralInDurationContext'') ''Duration'')
       (getChild (rangeExample ''NumberDurationLiteralInDurationContext'')
          ''NumberDurationLiteralInDurationContext'')
     = Some (SyntaxNode ''NumberDurationLiteralInDurationContext'' [] False 4 6 [])"
    by (simp add: rangeExample_def getChild_def typeIs_def orNode_def)
  moreover have
    "orNode (getChild (rangeExample ''Number'') ''Duration'')
       (getChild (rangeExample ''Number'') ''NumberDurationLiteralInDurationContext'') = None"
    by (simp add: rangeExample_def getChild_def typeIs_def orNode_def)
  ultimately show ?thesis
    using matrixSelector_range [OF kind, of "''NumberDurationLiteralInDurationContext''" "''foo[5x]''"]
      matrixSelector_range [OF kind, of "''Number''" "''foo[1h]''"]
      matrixSelector_range [OF pkind, of "''(foo)[5m]''"] vs pnone
    by (auto simp: sliceOf_def slice_def)
qed

subsection \<open>C3: what the duration parser computes\<close>



subsection \<open>C4: the two failure results\<close>



subsection \<open>C5: the label-matcher extractor\<close>

text \<open>
  Claim C5. For every label-matchers node the extractor returns, in the order met, one
  matcher for each direct child of a single-matcher kind that has both a label-name child
  and a string-literal child; the operator is \<open>!=\<close>, \<open>=~\<close> or \<open>!~\<close> exactly when the text of
  the match-operator child is that token, and \<open>=\<close> for any other text and for a missing
  operator child; the value is the string literal without its surrounding quote characters;
  a child lacking the name or the literal adds nothing. The matcher text \<^verbatim>\<open>status=~"5.."\<close>
  gives name \<open>status\<close>, operator \<open>=~\<close>, value \<open>5..\<close>, and \<^verbatim>\<open>instance!="a"\<close> gives name
  \<open>instance\<close>, operator \<open>!=\<close>, value \<open>a\<close>.
\<close>

theorem parseLabelMatchers_extracts:
  "map matcherTriple (parseLabelMatchers node query)
     = List.map_filter (spec_matcher query) (kids node)
   \<and> parseLabelMatchers statusMatchers ''{status=~\"5..\"}''
     = [\<lparr>matcher_type = MatchRegex, matcher_name = ''status'', matcher_value = ''5..''\<rparr>]
   \<and> parseLabelMatchers instanceMatchers ''{instance!=\"a\"}''
     = [\<lparr>matcher_type = MatchNeq, matcher_name = ''instance'', matcher_value = ''a''\<rparr>]"
proof -
  have "parseLabelMatchers statusMatchers ''{status=~\"5..\"}''
     = [\<lparr>matcher_type = MatchRegex, matcher_name = ''status'', matcher_value = ''5..''\<rparr>]"
    by code_simp
  moreover have "parseLabelMatchers instanceMatchers ''{instance!=\"a\"}''
     = [\<lparr>matcher_type = MatchNeq, matcher_name = ''instance'', matcher_value = ''a''\<rparr>]"
    by code_simp
  ultimately show ?thesis using parseLabelMatchers_spec by simp
qed

subsection \<open>C6: the explanation of an aggregation\<close>



subsection \<open>C7: the explanation of a matrix selector\<close>




subsection \<open>C8: a vector selector without a metric name\<close>

text \<open>
  Claim C8. A vector selector with no metric-identifier child is built as a
  \<^verbatim>\<open>vectorSelector\<close> node whose name is the empty string, and explained as
  \<^verbatim>\<open>Selects the metric "(any)"\<close>. When the matchers of a vector selector are not empty, the
  explanation goes on with \<^verbatim>\<open> where \<close> and the matchers joined by \<^verbatim>\<open> AND \<close>, each as
  \<^verbatim>\<open>{name} {relation} "{value}"\<close>, the relation being \<^verbatim>\<open>equals\<close> for \<open>=\<close>,
  \<^verbatim>\<open>does not equal\<close> for \<open>!=\<close>, \<^verbatim>\<open>matches regex\<close> for \<open>=~\<close> and \<^verbatim>\<open>does not match regex\<close>
  for \<open>!~\<close>.
\<close>

theorem vectorSelector_default_name:
  "(type_name node = ''VectorSelector''
      \<and> getChild node ''Identifier'' = None \<and> getChild node ''MetricIdentifier'' = None
    \<longrightarrow> node_type (buildAST node query) = vectorSelector
        \<and> name (buildAST node query) = Some []
        \<and> explainQuery (buildAST node query) =
            ''Selects the metric \"(any)\"'' @ spec_whereClause (matchers (buildAST node query)))
   \<and> (node_type ast = vectorSelector
    \<longrightarrow> explainQuery ast =
          ''Selects the metric \"'' @ orElse (name ast) ''(any)'' @ ''\"''
          @ spec_whereClause (matchers ast))"
proof -
  have "node_type (buildAST node query) = vectorSelector \<and> name (buildAST node query) = Some []"
    if "type_name node = ''VectorSelector''" "getChild node ''Identifier'' = None"
      "getChild node ''MetricIdentifier'' = None"
    using that by (simp add: buildAST_VectorSelector vectorSelectorNode_def orNode_def)
  then show ?thesis
    using explain_vectorSelector [of "buildAST node query"] explain_vectorSelector [of ast]
    by (auto simp: orElse_def)
qed

theorem vectorSelector_default_name_witness:
  "explainQuery (buildAST matchersOnly ''{status!~\"5.\",method=\"POST\"}'')
     = ''Selects the metric \"(any)\" where status does not match regex \"5.\" AND method equals \"POST\"''
   \<and> explainQuery (vectorSelectorNode ''up'' ''up'' []) = ''Selects the metric \"up\"''"
proof -
  let ?q = "''{status!~\"5.\",method=\"POST\"}''"
  have kind: "type_name matchersOnly = ''VectorSelector''"
    and none: "getChild matchersOnly ''Identifier'' = None"
      "getChild matchersOnly ''MetricIdentifier'' = None"
    by (simp_all add: matchersOnly_def getChild_def typeIs_def)
  have ms: "matchers (buildAST matchersOnly ?q)
              = Some [\<lparr>matcher_type = MatchNotRegex, matcher_name = ''status'', matcher_value = ''5.''\<rparr>,
                      \<lparr>matcher_type = MatchEq, matcher_name = ''method'', matcher_value = ''POST''\<rparr>]"
    by code_simp
  have "node_type (vectorSelectorNode ''up'' ''up'' []) = vectorSelector"
    by (simp add: vectorSelectorNode_def)
  then show ?thesis
    using vectorSelector_default_name [of matchersOnly ?q "vectorSelectorNode ''up'' ''up'' []"]
      kind none ms
    by (simp add: spec_whereClause_def spec_matcherText_def spec_relation_def orElse_def
          vectorSelectorNode_def)
qed

subsection \<open>C9: a kind the builder has no case for\<close>

text \<open>
  Claim C9. For every node of the concrete tree whose kind is not a recognized one, the
  builder builds every direct child that is expression-typed. If there is exactly one such
  child, the node built from it is the result. Otherwise the result is an \<^verbatim>\<open>error\<close> node
  whose text is the source text of the node itself and whose children are the nodes built,
  the field being left out when there are none. So the builder gives a result for every
  unrecognized kind.
\<close>

theorem buildAST_unrecognized_kind:
  assumes "type_name node \<notin> set recognizedKinds"
  shows "(\<forall>c. filter isExpressionNode (kids node) = [c]
            \<longrightarrow> buildAST node query = buildAST c query)
       \<and> (length (filter isExpressionNode (kids node)) \<noteq> 1
            \<longrightarrow> buildAST node query =
                  errorNode (sliceOf query node)
                    (if filter isExpressionNode (kids node) = [] then None
                     else Some (map (\<lambda>c. buildAST c query)
                                  (filter isExpressionNode (kids node)))))"
  using buildAST_default [OF assms, of query] by (auto simp: Let_def)

theorem buildAST_unrecognized_kind_witness:
  "buildAST stepInvariantExample ''foo @ start''
     = vectorSelectorNode ''foo'' ''foo'' []
   \<and> buildAST (SyntaxNode ''EqlRegex'' [] False 7 9 []) ''{status=~\"5..\"}''
     = errorNode ''=~'' None
   \<and> buildAST twoNumbersExample ''1 2''
     = errorNode ''1 2'' (Some [numberLiteralNode ''1'', numberLiteralNode ''2''])"
proof -
  have vs: "buildAST (SyntaxNode ''VectorSelector'' [''Expr''] False 0 3
                        [SyntaxNode ''Identifier'' [] False 0 3 []]) ''foo @ start''
              = vectorSelectorNode ''foo'' ''foo'' []"
    by (simp add: buildAST_VectorSelector getChild_def typeIs_def orNode_def sliceOf_def slice_def)
  have one: "buildAST (SyntaxNode ''NumberLiteral'' [''Expr''] False 0 1 []) ''1 2''
               = numberLiteralNode ''1''"
    by (subst buildAST.simps) (simp add: sliceOf_def slice_def)
  have two: "buildAST (SyntaxNode ''NumberLiteral'' [''Expr''] False 2 3 []) ''1 2''
               = numberLiteralNode ''2''"
    by (subst buildAST.simps) (simp add: sliceOf_def slice_def)
  have "buildAST stepInvariantExample ''foo @ start'' = vectorSelectorNode ''foo'' ''foo'' []"
    using buildAST_unrecognized_kind [of stepInvariantExample "''foo @ start''"] vs
    by (simp add: stepInvariantExample_def recognizedKinds_def isExpressionNode_def)
  moreover have "buildAST (SyntaxNode ''EqlRegex'' [] False 7 9 []) ''{status=~\"5..\"}''
                   = errorNode ''=~'' None"
    using buildAST_unrecognized_kind
            [of "SyntaxNode ''EqlRegex'' [] False 7 9 []" "''{status=~\"5..\"}''"]
    by (simp add: recognizedKinds_def sliceOf_def slice_def)
  moreover have "buildAST twoNumbersExample ''1 2''
                   = errorNode ''1 2'' (Some [numberLiteralNode ''1'', numberLiteralNode ''2''])"
    using buildAST_unrecognized_kind [of twoNumbersExample "''1 2''"] one two
    by (simp add: twoNumbersExample_def recognizedKinds_def isExpressionNode_def
          sliceOf_def slice_def)
  ultimately show ?thesis by simp
qed

subsection \<open>C10: the two forms of the duration in an explanation\<close>

text \<open>
  Claim C10. For every \<^verbatim>\<open>matrixSelector\<close> node whose range is absent or 0, the explanation
  spells the duration as \<^verbatim>\<open>5 minutes\<close>; the builder produces such a node, explained as
  \<^verbatim>\<open>Selects 5 minutes of data for "(any)"\<close>, from a matrix-selector node that wraps neither
  a vector selector nor a function call. For every \<^verbatim>\<open>matrixSelector\<close> node with a nonzero
  range, the explanation uses the compact form of \<^verbatim>\<open>formatDuration\<close>, which is never the
  words \<^verbatim>\<open>5 minutes\<close>: the form used tells whether the node has a nonzero range.
\<close>

theorem explain_matrixSelector_shapes:
  assumes "node_type ast = matrixSelector"
  shows "(range_ms ast = None \<or> range_ms ast = Some 0
          \<longrightarrow> explainQuery ast =
                ''Selects 5 minutes of data for \"'' @ orElse (name ast) ''(any)'' @ ''\"''
                @ spec_filterSuffix (matchers ast))
       \<and> (\<forall>r. range_ms ast = Some r \<and> r \<noteq> 0
          \<longrightarrow> explainQuery ast =
                ''Selects '' @ formatDuration r
                @ '' of data for \"'' @ orElse (name ast) ''(any)'' @ ''\"''
                @ spec_filterSuffix (matchers ast)
              \<and> formatDuration r \<noteq> ''5 minutes'')
       \<and> (type_name node = ''MatrixSelector''
            \<and> getChild node ''VectorSelector'' = None \<and> getChild node ''FunctionCall'' = None
          \<longrightarrow> buildAST node query = bareMatrixSelectorNode (sliceOf query node)
              \<and> range_ms (buildAST node query) = None
              \<and> explainQuery (buildAST node query) = ''Selects 5 minutes of data for \"(any)\"'')"
proof -
  have bare: "explainQuery (bareMatrixSelectorNode t) = ''Selects 5 minutes of data for \"(any)\"''"
    for t
    by (simp add: explainQuery_def bareMatrixSelectorNode_def orElse_def)
  have "buildAST node query = bareMatrixSelectorNode (sliceOf query node)"
    if "type_name node = ''MatrixSelector''" "getChild node ''VectorSelector'' = None"
      "getChild node ''FunctionCall'' = None"
    using that by (simp add: buildAST_MatrixSelector)
  then show ?thesis
    using explain_matrixSelector_spec [OF assms] formatDuration_not_words bare
    by (auto simp: bareMatrixSelectorNode_def)
qed

theorem explain_matrixSelector_shapes_witness:
  "explainQuery (buildAST parenthesizedRange ''(foo)[5m]'')
     = ''Selects 5 minutes of data for \"(any)\"''
   \<and> explainQuery (ParsedNode matrixSelector ''foo[0s]'' None None (Some ''foo'') (Some [])
                      (Some 0) None None None None None None)
     = ''Selects 5 minutes of data for \"foo\"''
   \<and> explainQuery (matrixSelectorNode ''foo[5m]'' (Some ''foo'') (Some []) 300000)
     = ''Selects 5m of data for \"foo\"''"
proof -
  let ?zero = "ParsedNode matrixSelector ''foo[0s]'' None None (Some ''foo'') (Some [])
                 (Some 0) None None None None None None"
  let ?five = "matrixSelectorNode ''foo[5m]'' (Some ''foo'') (Some []) 300000"
  have kind: "type_name parenthesizedRange = ''MatrixSelector''"
    and none: "getChild parenthesizedRange ''VectorSelector'' = None"
      "getChild parenthesizedRange ''FunctionCall'' = None"
    by (simp_all add: parenthesizedRange_def getChild_def typeIs_def)
  have five: "formatDuration 300000 = ''5m''" by code_simp
  have zero: "node_type ?zero = matrixSelector" by simp
  have a: "explainQuery (buildAST parenthesizedRange ''(foo)[5m]'')
             = ''Selects 5 minutes of data for \"(any)\"''"
    using explain_matrixSelector_shapes [OF zero, of parenthesizedRange "''(foo)[5m]''"] kind none
    by blast
  have b: "explainQuery ?zero = ''Selects 5 minutes of data for \"foo\"''"
    using explain_matrixSelector_shapes [OF zero, of parenthesizedRange "''(foo)[5m]''"]
    by (simp add: orElse_def spec_filterSuffix_def)
  have c: "explainQuery ?five = ''Selects 5m of data for \"foo\"''"
    using explain_matrixSelector_shapes [of ?five parenthesizedRange "''(foo)[5m]''"] five
    by (simp add: matrixSelectorNode_def orElse_def spec_filterSuffix_def)
  from a b c show ?thesis by simp
qed

end
